theory Spec2Isabelle
  imports Complex_Main
begin

section \<open>JavaScript values\<close>

text \<open>
  The values that travel through the component state and the response bodies. A number
  is given by its value, a rational (JSON carries neither NaN nor an infinity); an object
  is the association list of its own properties. A string is its UTF-8 text, so a
  character outside ASCII takes several \<open>char\<close>s.
\<close>

datatype js_value =
    JUndefined
  | JNull
  | JBool bool
  | JNum rat
  | JStr string
  | JArr "js_value list"
  | JObj "(string \<times> js_value) list"

text \<open>ToBoolean, as applied by \<^verbatim>\<open>!\<close>, \<^verbatim>\<open>||\<close>, \<^verbatim>\<open>&&\<close> and \<^verbatim>\<open>if\<close>.\<close>

fun truthy :: "js_value \<Rightarrow> bool" where
  "truthy JUndefined = False"
| "truthy JNull = False"
| "truthy (JBool b) = b"
| "truthy (JNum n) = (n \<noteq> 0)"
| "truthy (JStr s) = (s \<noteq> [])"
| "truthy (JArr xs) = True"
| "truthy (JObj fs) = True"

text \<open>\<^verbatim>\<open>a || b\<close>\<close>

definition js_or :: "js_value \<Rightarrow> js_value \<Rightarrow> js_value" where
  "js_or a b = (if truthy a then a else b)"

text \<open>
  \<^verbatim>\<open>v?.k\<close> for a property name \<open>k\<close> that no prototype defines (such as
  \<^verbatim>\<open>detail\<close>): undefined on null and undefined, the property's value on an
  object that has it, undefined on everything else.
\<close>

fun opt_chain :: "js_value \<Rightarrow> string \<Rightarrow> js_value" where
  "opt_chain (JObj fs) k = (case map_of fs k of Some v \<Rightarrow> v | None \<Rightarrow> JUndefined)"
| "opt_chain v k = JUndefined"

section \<open>Data model\<close>

record key_entities =
  people :: "string list"
  organizations :: "string list"
  locations :: "string list"

record quiz_question =
  question :: string
  options :: "string list"
  answer :: string
  difficulty :: string
  explanation :: string

record quiz_record =
  title :: string
  summary :: string
  key_entities :: key_entities
  quiz :: "quiz_question list"
  related_topics :: "string list"

text \<open>
  An identifier is kept in the form the template literal
  \<^verbatim>\<open>`/quiz/${quiz_id}`\<close> interpolates: its string.
\<close>

type_synonym ident = string

record history_entry =
  entry_id :: ident
  entry_title :: string
  entry_url :: string
  date_generated :: string

section \<open>services/api.js\<close>

datatype http_method = GET | POST

record request =
  verb :: http_method
  path :: string
  body :: "js_value option"

text \<open>
  The axios instance: every path is relative to the base URL, and a request carries
  the data handed to \<^verbatim>\<open>post\<close> as its JSON body; \<^verbatim>\<open>get\<close> sends none.
\<close>

definition apiClient_baseURL :: string where
  "apiClient_baseURL = ''http://localhost:8000''"

definition apiClient_post :: "string \<Rightarrow> js_value \<Rightarrow> request" where
  "apiClient_post p d = \<lparr>verb = POST, path = p, body = Some d\<rparr>"

definition apiClient_get :: "string \<Rightarrow> request" where
  "apiClient_get p = \<lparr>verb = GET, path = p, body = None\<rparr>"

definition generateQuiz :: "string \<Rightarrow> request" where
  "generateQuiz u = apiClient_post ''/generate_quiz'' (JObj [(''url'', JStr u)])"

definition getHistory :: request where
  "getHistory = apiClient_get ''/history''"

definition getQuizById :: "ident \<Rightarrow> request" where
  "getQuizById quiz_id = apiClient_get (''/quiz/'' @ quiz_id)"

text \<open>
  A rejected axios promise carries an error whose \<^verbatim>\<open>response\<close> is undefined when
  no response came, and otherwise holds the response body in \<^verbatim>\<open>data\<close>.
\<close>

datatype axios_error = NoResponse | ErrorResponse js_value

text \<open>\<^verbatim>\<open>err.response?.data?.detail\<close>\<close>

fun error_detail :: "axios_error \<Rightarrow> js_value" where
  "error_detail NoResponse = JUndefined"
| "error_detail (ErrorResponse d) = opt_chain d ''detail''"

text \<open>How an awaited request settles: resolved with \<^verbatim>\<open>response.data\<close>, or rejected.\<close>

datatype 'a settled = Resolved 'a | Rejected axios_error

text \<open>
  An async handler runs to its first \<^verbatim>\<open>await\<close> and suspends there, or returns
  before it. Either way it leaves a component state; a suspended handler has issued the
  request it waits for.
\<close>

datatype 's susp = Returned 's | Awaiting 's request

fun state_of :: "'s susp \<Rightarrow> 's" where
  "state_of (Returned s) = s"
| "state_of (Awaiting s r) = s"

fun requests_of :: "'s susp \<Rightarrow> request list" where
  "requests_of (Returned s) = []"
| "requests_of (Awaiting s r) = [r]"

text \<open>
  A handler run to its end with nothing happening in between: the request it awaits, if
  any, is answered by \<open>backend\<close> and the continuation \<open>k\<close> runs on the state as
  the handler left it. The result is the final state and the requests issued.
\<close>

definition run_async ::
  "'s susp \<Rightarrow> (request \<Rightarrow> 'a settled) \<Rightarrow> ('a settled \<Rightarrow> 's \<Rightarrow> 's) \<Rightarrow> 's \<times> request list" where
  "run_async a backend k =
     (case a of
        Returned s \<Rightarrow> (s, [])
      | Awaiting s r \<Rightarrow> (k (backend r) s, [r]))"

section \<open>components/QuizDisplay.jsx\<close>

text \<open>One rendered option line: its text, and whether it carries the answer's styling.\<close>

type_synonym option_line = "string \<times> bool"

record question_block =
  heading :: "nat \<times> string"
  badge_class :: string
  badge_text :: string
  option_lines :: "option_line list"
  explanation_line :: string

record quiz_view =
  title_heading :: string
  summary_section :: string
  people_list :: "string \<times> string list"
  organizations_list :: "string \<times> string list"
  locations_list :: "string \<times> string list"
  question_blocks :: "question_block list"
  topic_tags :: "string list"

definition EntityList :: "string \<Rightarrow> string list \<Rightarrow> string \<times> string list" where
  "EntityList t items = (t, map (\<lambda>item. item) items)"

definition difficulty_class :: "string \<Rightarrow> string" where
  "difficulty_class d =
     (if d = ''easy'' then ''bg-green-100 text-green-800''
      else if d = ''medium'' then ''bg-yellow-100 text-yellow-800''
      else ''bg-red-100 text-red-800'')"

definition render_option :: "quiz_question \<Rightarrow> string \<Rightarrow> option_line" where
  "render_option q opt = (opt, opt = answer q)"

definition render_question :: "nat \<times> quiz_question \<Rightarrow> question_block" where
  "render_question iq =
     (case iq of (index, q) \<Rightarrow>
        \<lparr>heading = (index + 1, question q),
         badge_class = difficulty_class (difficulty q),
         badge_text = difficulty q,
         option_lines = map (render_option q) (options q),
         explanation_line = explanation q\<rparr>)"

definition QuizDisplay :: "quiz_record option \<Rightarrow> quiz_view option" where
  "QuizDisplay quizData' =
     (case quizData' of
        None \<Rightarrow> None
      | Some qd \<Rightarrow>
          Some \<lparr>title_heading = title qd,
                summary_section = summary qd,
                people_list = EntityList ''People'' (people (key_entities qd)),
                organizations_list =
                  EntityList ''Organizations'' (organizations (key_entities qd)),
                locations_list = EntityList ''Locations'' (locations (key_entities qd)),
                question_blocks = map render_question (enumerate 0 (quiz qd)),
                topic_tags = map (\<lambda>topic. topic) (related_topics qd)\<rparr>)"

text \<open>The options of a block that carry the answer's styling, in display order.\<close>

definition marked :: "question_block \<Rightarrow> string list" where
  "marked b = map fst (filter snd (option_lines b))"

section \<open>tabs/GenerateQuizTab.jsx\<close>

record gen_state =
  url :: string
  loading :: bool
  error :: js_value
  quizData :: "quiz_record option"

definition GenerateQuizTab_init :: gen_state where
  "GenerateQuizTab_init = \<lparr>url = [], loading = False, error = JNull, quizData = None\<rparr>"


definition validation_message :: string where
  "validation_message = ''Please enter a Wikipedia URL.''"

definition fallback_message :: string where
  "fallback_message = ''An unknown error occurred. Is the backend server running?''"

text \<open>
  \<^verbatim>\<open>handleSubmit\<close> up to its \<^verbatim>\<open>await\<close>: the guard on the url, then the three
  resets and the call of \<^verbatim>\<open>generateQuiz\<close>. \<^verbatim>\<open>!url\<close> holds of the empty string
  only. \<^verbatim>\<open>e.preventDefault()\<close> stops the browser's own form submission and touches
  no state.
\<close>

definition handleSubmit_begin :: "gen_state \<Rightarrow> gen_state susp" where
  "handleSubmit_begin st =
     (if url st = [] then Returned (st\<lparr>error := JStr validation_message\<rparr>)
      else Awaiting (st\<lparr>loading := True, error := JNull, quizData := None\<rparr>)
             (generateQuiz (url st)))"

text \<open>
  \<^verbatim>\<open>handleSubmit\<close> from the moment the request settles: the rest of the
  \<^verbatim>\<open>try\<close> or the \<^verbatim>\<open>catch\<close>, then \<^verbatim>\<open>finally\<close>. It acts on the state
  the component has by then.
\<close>

fun handleSubmit_resume :: "quiz_record settled \<Rightarrow> gen_state \<Rightarrow> gen_state" where
  "handleSubmit_resume (Resolved d) st = st\<lparr>quizData := Some d, loading := False\<rparr>"
| "handleSubmit_resume (Rejected err) st =
     st\<lparr>error := js_or (error_detail err) (JStr fallback_message), loading := False\<rparr>"

definition handleSubmit ::
  "(request \<Rightarrow> quiz_record settled) \<Rightarrow> gen_state \<Rightarrow> gen_state \<times> request list" where
  "handleSubmit backend st = run_async (handleSubmit_begin st) backend handleSubmit_resume"






text \<open>
  What React shows for a value placed among an element's children, as \<^verbatim>\<open>{error}\<close>
  is: nothing for undefined, null and the booleans, the text of a string, the text of a
  number (kept as the number), the children of an array one after the other, and for an
  object the error ``Objects are not valid as a React child'', which takes the whole
  render down.
\<close>

datatype text_node = StrNode string | NumNode rat

datatype react_error = ObjectsNotValidAsChild

fun react_child :: "js_value \<Rightarrow> react_error + text_node list"
  and react_children :: "js_value list \<Rightarrow> react_error + text_node list" where
  "react_child JUndefined = Inr []"
| "react_child JNull = Inr []"
| "react_child (JBool b) = Inr []"
| "react_child (JNum n) = Inr [NumNode n]"
| "react_child (JStr s) = Inr [StrNode s]"
| "react_child (JArr xs) = react_children xs"
| "react_child (JObj fs) = Inl ObjectsNotValidAsChild"
| "react_children [] = Inr []"
| "react_children (x # xs) =
     (case react_child x of
        Inl e \<Rightarrow> Inl e
      | Inr a \<Rightarrow> (case react_children xs of Inl e \<Rightarrow> Inl e | Inr b \<Rightarrow> Inr (a @ b)))"

text \<open>
  \<^verbatim>\<open>{error && (<div><strong>Error:</strong> {error}</div>)}\<close>: for a truthy error the
  box with the error as its child, for a falsy one the error itself as the child.
\<close>

datatype error_slot = Bare "text_node list" | ErrorBox "text_node list"

definition render_error_slot :: "js_value \<Rightarrow> react_error + error_slot" where
  "render_error_slot e =
     (case react_child e of
        Inl x \<Rightarrow> Inl x
      | Inr t \<Rightarrow> Inr (if truthy e then ErrorBox t else Bare t))"

record gen_view =
  input_value :: string
  button_disabled :: bool
  button_label :: string
  error_region :: error_slot
  spinner :: bool
  quiz_region :: "quiz_view option"

text \<open>
  The render, as React puts it on screen: the view, or the error that the error's child
  raises. The regions guarded by \<^verbatim>\<open>loading &&\<close> and \<^verbatim>\<open>quizData &&\<close> are
  present when the guard is truthy.
\<close>

definition GenerateQuizTab :: "gen_state \<Rightarrow> react_error + gen_view" where
  "GenerateQuizTab st =
     (case render_error_slot (error st) of
        Inl x \<Rightarrow> Inl x
      | Inr region \<Rightarrow>
          Inr \<lparr>input_value = url st,
               button_disabled = loading st,
               button_label = (if loading st then ''Generating...'' else ''Generate Quiz''),
               error_region = region,
               spinner = loading st,
               quiz_region =
                 (case quizData st of None \<Rightarrow> None | Some qd \<Rightarrow> QuizDisplay (Some qd))\<rparr>)"

section \<open>components/Modal.jsx\<close>

text \<open>
  Modelled from the spec: the Modal component, whose file is not among the sources.
  It is a container rendered only when its open flag is set, holding what the caller
  passes in; it has no data of its own, and its close control calls the callback it was
  given.
\<close>

definition Modal :: "bool \<Rightarrow> 'c \<Rightarrow> 'c option" where
  "Modal isOpen children = (if isOpen then Some children else None)"

section \<open>tabs/HistoryTab.jsx\<close>

record hist_state =
  history :: "history_entry list"
  loadingH :: bool
  errorH :: js_value
  isModalOpen :: bool
  selectedQuiz :: "quiz_record option"
  modalLoading :: bool

definition HistoryTab_init :: hist_state where
  "HistoryTab_init =
     \<lparr>history = [], loadingH = True, errorH = JNull,
      isModalOpen = False, selectedQuiz = None, modalLoading = False\<rparr>"

definition history_failure :: string where
  "history_failure = ''Failed to fetch history.''"

definition details_failure :: string where
  "details_failure = ''Failed to fetch quiz details.''"

text \<open>\<^verbatim>\<open>fetchHistory\<close>, called once by the mount effect, up to its \<^verbatim>\<open>await\<close>.\<close>

definition fetchHistory_begin :: "hist_state \<Rightarrow> hist_state susp" where
  "fetchHistory_begin st = Awaiting (st\<lparr>loadingH := True, errorH := JNull\<rparr>) getHistory"

fun fetchHistory_resume :: "history_entry list settled \<Rightarrow> hist_state \<Rightarrow> hist_state" where
  "fetchHistory_resume (Resolved d) st = st\<lparr>history := d, loadingH := False\<rparr>"
| "fetchHistory_resume (Rejected err) st =
     st\<lparr>errorH := JStr history_failure, loadingH := False\<rparr>"

definition fetchHistory ::
  "(request \<Rightarrow> history_entry list settled) \<Rightarrow> hist_state \<Rightarrow> hist_state \<times> request list" where
  "fetchHistory backend st = run_async (fetchHistory_begin st) backend fetchHistory_resume"

text \<open>\<^verbatim>\<open>handleDetailsClick\<close> up to its \<^verbatim>\<open>await\<close>, and from there on.\<close>

definition handleDetailsClick_begin :: "ident \<Rightarrow> hist_state \<Rightarrow> hist_state susp" where
  "handleDetailsClick_begin quizId st =
     Awaiting (st\<lparr>modalLoading := True, isModalOpen := True, selectedQuiz := None\<rparr>)
       (getQuizById quizId)"

fun handleDetailsClick_resume :: "quiz_record settled \<Rightarrow> hist_state \<Rightarrow> hist_state" where
  "handleDetailsClick_resume (Resolved d) st =
     st\<lparr>selectedQuiz := Some d, modalLoading := False\<rparr>"
| "handleDetailsClick_resume (Rejected err) st =
     st\<lparr>errorH := JStr details_failure, isModalOpen := False, modalLoading := False\<rparr>"

definition handleDetailsClick ::
  "(request \<Rightarrow> quiz_record settled) \<Rightarrow> ident \<Rightarrow> hist_state \<Rightarrow> hist_state \<times> request list"
  where
  "handleDetailsClick backend quizId st =
     run_async (handleDetailsClick_begin quizId st) backend handleDetailsClick_resume"

definition closeModal :: "hist_state \<Rightarrow> hist_state" where
  "closeModal st = st\<lparr>isModalOpen := False, selectedQuiz := None\<rparr>"

text \<open>
  The rendered rows. The date cell is the entry's timestamp under
  \<^verbatim>\<open>toLocaleString\<close>, whose text depends on the browser's locale and is kept
  symbolic; the last component of an entry row is the id its Details button hands to
  \<^verbatim>\<open>handleDetailsClick\<close>.
\<close>

datatype date_cell = ToLocaleString string

datatype row =
    PlaceholderRow string
  | EntryRow ident string string date_cell ident

record modal_content =
  loading_line :: bool
  quiz_content :: "quiz_view option"

datatype history_view =
    LoadingView string
  | ErrorView js_value
  | TableView "row list" "modal_content option"

definition render_row :: "history_entry \<Rightarrow> row" where
  "render_row item =
     EntryRow (entry_id item) (entry_title item) (entry_url item)
       (ToLocaleString (date_generated item)) (entry_id item)"

definition history_rows :: "history_entry list \<Rightarrow> row list" where
  "history_rows h =
     (if length h = 0 then [PlaceholderRow ''No quizzes generated yet.'']
      else map render_row h)"

definition HistoryTab :: "hist_state \<Rightarrow> history_view" where
  "HistoryTab st =
     (if loadingH st then LoadingView ''Loading history...''
      else if truthy (errorH st) then ErrorView (errorH st)
      else TableView (history_rows (history st))
             (Modal (isModalOpen st)
                \<lparr>loading_line = modalLoading st,
                 quiz_content =
                   (case selectedQuiz st of None \<Rightarrow> None
                    | Some qd \<Rightarrow> QuizDisplay (Some qd))\<rparr>))"

text \<open>What a click on a rendered row's Details button does: only entry rows have one.\<close>

fun click_details :: "row \<Rightarrow> hist_state \<Rightarrow> hist_state susp" where
  "click_details (EntryRow k t u d target) st = handleDetailsClick_begin target st"
| "click_details (PlaceholderRow t) st = Returned st"

subsection \<open>The History Tab as a transition system\<close>

text \<open>
  One mounted History Tab together with its requests in flight. The mount effect runs
  \<^verbatim>\<open>fetchHistory\<close> once, which is the only call of it; afterwards a request in
  flight may settle either way, a Details button of a rendered row may be clicked, and a
  rendered modal may be closed.
\<close>

record hist_sys =
  tab :: hist_state
  history_inflight :: "request list"
  details_inflight :: "request list"

definition sys_mount :: hist_sys where
  "sys_mount =
     \<lparr>tab = state_of (fetchHistory_begin HistoryTab_init),
      history_inflight = requests_of (fetchHistory_begin HistoryTab_init),
      details_inflight = []\<rparr>"

definition sys_history_settles ::
  "request \<Rightarrow> history_entry list settled \<Rightarrow> hist_sys \<Rightarrow> hist_sys" where
  "sys_history_settles r out s =
     s\<lparr>tab := fetchHistory_resume out (tab s),
       history_inflight := remove1 r (history_inflight s)\<rparr>"

definition sys_click :: "row \<Rightarrow> hist_sys \<Rightarrow> hist_sys" where
  "sys_click rw s =
     s\<lparr>tab := state_of (click_details rw (tab s)),
       details_inflight := requests_of (click_details rw (tab s)) @ details_inflight s\<rparr>"

definition sys_details_settles ::
  "request \<Rightarrow> quiz_record settled \<Rightarrow> hist_sys \<Rightarrow> hist_sys" where
  "sys_details_settles r out s =
     s\<lparr>tab := handleDetailsClick_resume out (tab s),
       details_inflight := remove1 r (details_inflight s)\<rparr>"

definition sys_close :: "hist_sys \<Rightarrow> hist_sys" where
  "sys_close s = s\<lparr>tab := closeModal (tab s)\<rparr>"

fun shown_rows :: "history_view \<Rightarrow> row list" where
  "shown_rows (TableView rows m) = rows"
| "shown_rows v = []"

fun shown_modal :: "history_view \<Rightarrow> modal_content option" where
  "shown_modal (TableView rows m) = m"
| "shown_modal v = None"

text \<open>
  The events, each with the condition under which it can happen: a response needs its
  request in flight, a click needs the row on screen, closing needs the modal on screen.
  \<open>run\<close> plays a sequence of events from a state and yields nothing when one of them
  cannot happen; the states a mounted tab can be in are the results of \<open>run\<close> from
  \<open>sys_mount\<close>.
\<close>

datatype event =
    HistorySettles request "history_entry list settled"
  | Click row
  | DetailsSettles request "quiz_record settled"
  | Close

fun step :: "event \<Rightarrow> hist_sys \<Rightarrow> hist_sys option" where
  "step (HistorySettles r out) s =
     (if r \<in> set (history_inflight s) then Some (sys_history_settles r out s) else None)"
| "step (Click rw) s =
     (if rw \<in> set (shown_rows (HistoryTab (tab s))) then Some (sys_click rw s) else None)"
| "step (DetailsSettles r out) s =
     (if r \<in> set (details_inflight s) then Some (sys_details_settles r out s) else None)"
| "step Close s =
     (if shown_modal (HistoryTab (tab s)) \<noteq> None then Some (sys_close s) else None)"

fun run :: "event list \<Rightarrow> hist_sys \<Rightarrow> hist_sys option" where
  "run [] s = Some s"
| "run (e # es) s = (case step e s of None \<Rightarrow> None | Some s' \<Rightarrow> run es s')"

text \<open>
  The invariant of the runs: the list is loading only while no error is held and no
  detail request is in flight, and the error slot holds null or one of the two failure
  messages.
\<close>

definition hist_inv :: "hist_sys \<Rightarrow> bool" where
  "hist_inv s =
     ((loadingH (tab s) \<longrightarrow> errorH (tab s) = JNull \<and> details_inflight s = [])
      \<and> (errorH (tab s) = JNull \<or> errorH (tab s) = JStr history_failure
           \<or> errorH (tab s) = JStr details_failure))"

subsection \<open>Sample data\<close>

definition sample_question :: quiz_question where
  "sample_question =
     \<lparr>question = ''Who proposed the imitation game?'',
      options = [''Alan Turing'', ''Alonzo Church'', ''Kurt Goedel'', ''John von Neumann''],
      answer = ''Alan Turing'',
      difficulty = ''easy'',
      explanation = ''Turing described it in 1950.''\<rparr>"

definition unmatched_question :: quiz_question where
  "unmatched_question =
     \<lparr>question = ''Where was Turing born?'',
      options = [''Manchester'', ''Cambridge''],
      answer = ''London'',
      difficulty = ''hard'',
      explanation = ''He was born in Maida Vale.''\<rparr>"

definition sample_quiz :: quiz_record where
  "sample_quiz =
     \<lparr>title = ''Alan Turing'',
      summary = ''English mathematician.'',
      key_entities = \<lparr>people = [''Alan Turing''], organizations = [''GCHQ''],
                       locations = [''Bletchley Park'']\<rparr>,
      quiz = [sample_question, unmatched_question],
      related_topics = [''Enigma'']\<rparr>"

definition sample_entry :: history_entry where
  "sample_entry =
     \<lparr>entry_id = ''7'', entry_title = ''Alan Turing'',
      entry_url = ''https://en.wikipedia.org/wiki/Alan_Turing'',
      date_generated = ''2025-01-01T00:00:00''\<rparr>"

definition other_entry :: history_entry where
  "other_entry =
     \<lparr>entry_id = ''3'', entry_title = ''Ada Lovelace'',
      entry_url = ''https://en.wikipedia.org/wiki/Ada_Lovelace'',
      date_generated = ''2024-12-31T00:00:00''\<rparr>"

subsection \<open>Sample runs of the History Tab\<close>

definition events_loaded :: "event list" where
  "events_loaded = [HistorySettles getHistory (Resolved [sample_entry, other_entry])]"

definition events_clicked :: "event list" where
  "events_clicked = events_loaded @ [Click (render_row sample_entry)]"

definition events_failed :: "event list" where
  "events_failed = events_clicked @ [DetailsSettles (getQuizById ''7'') (Rejected NoResponse)]"

definition events_late_success :: "event list" where
  "events_late_success =
     events_clicked @ [Close, DetailsSettles (getQuizById ''7'') (Resolved sample_quiz)]"

definition run_loaded :: hist_sys where
  "run_loaded =
     sys_history_settles getHistory (Resolved [sample_entry, other_entry]) sys_mount"

definition run_clicked :: hist_sys where
  "run_clicked = sys_click (render_row sample_entry) run_loaded"

definition run_failed :: hist_sys where
  "run_failed = sys_details_settles (getQuizById ''7'') (Rejected NoResponse) run_clicked"

definition run_closed_early :: hist_sys where
  "run_closed_early = sys_close run_clicked"

definition run_late_success :: hist_sys where
  "run_late_success =
     sys_details_settles (getQuizById ''7'') (Resolved sample_quiz) run_closed_early"


definition filled_form :: gen_state where
  "filled_form =
     \<lparr>url = ''https://en.wikipedia.org/wiki/Alan_Turing'', loading = False,
      error = JStr ''scrape failed'', quizData = Some sample_quiz\<rparr>"

definition cleared_form :: gen_state where
  "cleared_form = \<lparr>url = [], loading = False, error = JNull, quizData = Some sample_quiz\<rparr>"

section \<open>Auxiliary facts\<close>

lemmas sys_defs =
  sys_mount_def sys_history_settles_def sys_click_def sys_details_settles_def sys_close_def
  fetchHistory_begin_def handleDetailsClick_begin_def closeModal_def HistoryTab_init_def

lemmas view_defs = HistoryTab_def Modal_def history_rows_def

lemma marked_render_question:
  "marked (render_question (i, q)) = filter (\<lambda>opt. opt = answer q) (options q)"
  by (simp add: marked_def render_question_def render_option_def filter_map o_def)

lemma filter_eq_distinct:
  "distinct xs \<Longrightarrow> a \<in> set xs \<Longrightarrow> filter (\<lambda>x. x = a) xs = [a]"
  by (induction xs) (auto simp: filter_empty_conv)

lemma filter_eq_absent:
  "a \<notin> set xs \<Longrightarrow> filter (\<lambda>x. x = a) xs = []"
  by (induction xs) auto

lemma QuizDisplay_block:
  "QuizDisplay (Some qd) = Some v \<Longrightarrow> i < length (quiz qd) \<Longrightarrow>
     question_blocks v ! i = render_question (i, quiz qd ! i)"
  by (auto simp: QuizDisplay_def nth_enumerate_eq)

lemma truthy_failures:
  "truthy (JStr history_failure)" "truthy (JStr details_failure)"
  by (simp_all add: history_failure_def details_failure_def)

lemma hist_inv_mount: "hist_inv sys_mount"
  by (simp add: hist_inv_def sys_defs)

lemma hist_inv_step:
  assumes "hist_inv s" and "step e s = Some s'"
  shows "hist_inv s'"
proof (cases e)
  case (HistorySettles r out)
  with assms show ?thesis
    by (cases out) (auto simp: hist_inv_def sys_defs split: if_splits)
next
  case (Click rw)
  with assms(2) have shown: "rw \<in> set (shown_rows (HistoryTab (tab s)))"
    and s': "s' = sys_click rw s"
    by (auto split: if_splits)
  from shown have "\<not> loadingH (tab s)"
    by (auto simp: HistoryTab_def split: if_splits)
  with assms(1) show ?thesis
    unfolding s' by (cases rw) (auto simp: hist_inv_def sys_defs)
next
  case (DetailsSettles r out)
  with assms(2) have inflight: "r \<in> set (details_inflight s)"
    and s': "s' = sys_details_settles r out s"
    by (auto split: if_splits)
  from inflight have "details_inflight s \<noteq> []" by auto
  with assms(1) have "\<not> loadingH (tab s)"
    by (auto simp: hist_inv_def)
  with assms(1) show ?thesis
    unfolding s' by (cases out) (auto simp: hist_inv_def sys_defs)
next
  case Close
  with assms show ?thesis
    by (auto simp: hist_inv_def sys_defs split: if_splits)
qed

lemma hist_inv_run: "hist_inv s \<Longrightarrow> run es s = Some s' \<Longrightarrow> hist_inv s'"
proof (induction es arbitrary: s)
  case Nil
  then show ?case by simp
next
  case (Cons e es)
  from Cons.prems(2) obtain s1 where s1: "step e s = Some s1" and rest: "run es s1 = Some s'"
    by (auto split: option.splits)
  from Cons.prems(1) s1 have "hist_inv s1" by (rule hist_inv_step)
  then show ?case using rest by (rule Cons.IH)
qed

lemma run_append:
  "run (es @ fs) s = (case run es s of None \<Rightarrow> None | Some s' \<Rightarrow> run fs s')"
  by (induction es arbitrary: s) (auto split: option.splits)

lemma tab_loaded:
  "tab run_loaded =
     \<lparr>history = [sample_entry, other_entry], loadingH = False, errorH = JNull,
      isModalOpen = False, selectedQuiz = None, modalLoading = False\<rparr>"
  by (simp add: run_loaded_def sys_defs)

lemma tab_clicked:
  "tab run_clicked =
     \<lparr>history = [sample_entry, other_entry], loadingH = False, errorH = JNull,
      isModalOpen = True, selectedQuiz = None, modalLoading = True\<rparr>"
  by (simp add: run_clicked_def sys_click_def tab_loaded render_row_def
      handleDetailsClick_begin_def)

lemma inflight_clicked: "details_inflight run_clicked = [getQuizById ''7'']"
  by (simp add: run_clicked_def sys_click_def render_row_def handleDetailsClick_begin_def
      sample_entry_def run_loaded_def sys_history_settles_def sys_mount_def)

lemma loaded_run: "run events_loaded sys_mount = Some run_loaded"
  by (simp add: events_loaded_def run_loaded_def sys_mount_def fetchHistory_begin_def)

lemma clicked_run: "run events_clicked sys_mount = Some run_clicked"
  by (simp add: events_clicked_def run_append loaded_run run_clicked_def tab_loaded
      view_defs)

lemma failed_run: "run events_failed sys_mount = Some run_failed"
  by (simp add: events_failed_def run_append clicked_run run_failed_def inflight_clicked)

lemma late_success_run: "run events_late_success sys_mount = Some run_late_success"
  by (simp add: events_late_success_def run_append clicked_run run_late_success_def
      run_closed_early_def tab_clicked view_defs sys_close_def inflight_clicked)

lemma entry_id_sample: "entry_id sample_entry = ''7''"
  by (simp add: sample_entry_def)


section \<open>Generate Tab\<close>




text \<open>
  Claim C3. A submission with a non-empty url issues exactly one request: a POST to
  \<^verbatim>\<open>/generate_quiz\<close> whose body is the object with the single field \<^verbatim>\<open>url\<close>,
  holding the submitted url. This is the only request up to the \<^verbatim>\<open>await\<close> and the
  only one of the whole handler, however the backend answers.
\<close>

theorem submit_posts_url:
  "url st \<noteq> [] \<Longrightarrow>
     requests_of (handleSubmit_begin st) =
       [\<lparr>verb = POST, path = ''/generate_quiz'',
         body = Some (JObj [(''url'', JStr (url st))])\<rparr>]
     \<and> snd (handleSubmit backend st) =
       [\<lparr>verb = POST, path = ''/generate_quiz'',
         body = Some (JObj [(''url'', JStr (url st))])\<rparr>]"
  by (simp add: handleSubmit_def run_async_def handleSubmit_begin_def generateQuiz_def
      apiClient_post_def)

theorem submit_posts_url_witness:
  "url filled_form \<noteq> []
   \<and> snd (handleSubmit (\<lambda>r. Rejected NoResponse) filled_form) =
       [\<lparr>verb = POST, path = ''/generate_quiz'',
         body = Some (JObj [(''url'', JStr ''https://en.wikipedia.org/wiki/Alan_Turing'')])\<rparr>]"
  using submit_posts_url [of filled_form "\<lambda>r. Rejected NoResponse"]
  by (simp add: filled_form_def)

text \<open>
  Claim C7. After a failed generate request the error shown is the value at
  \<^verbatim>\<open>detail\<close> of the response body when that value is a non-empty string or a number
  other than zero, and the fixed fallback message when there is no response, when the
  body has no such field, and when the field holds a falsy value (null, false, 0 or the
  empty string). The loading indicator is cleared in each of these cases.
\<close>

theorem failed_generate_message:
  "(map_of fs ''detail'' = Some (JStr m) \<and> m \<noteq> [] \<longrightarrow>
      (\<exists>v. GenerateQuizTab (handleSubmit_resume (Rejected (ErrorResponse (JObj fs))) st) = Inr v
         \<and> error_region v = ErrorBox [StrNode m] \<and> \<not> spinner v))
   \<and> (map_of fs ''detail'' = Some (JNum n) \<and> n \<noteq> 0 \<longrightarrow>
      (\<exists>v. GenerateQuizTab (handleSubmit_resume (Rejected (ErrorResponse (JObj fs))) st) = Inr v
         \<and> error_region v = ErrorBox [NumNode n] \<and> \<not> spinner v))
   \<and> (map_of fs ''detail'' = Some d \<and> \<not> truthy d \<longrightarrow>
      (\<exists>v. GenerateQuizTab (handleSubmit_resume (Rejected (ErrorResponse (JObj fs))) st) = Inr v
         \<and> error_region v =
             ErrorBox [StrNode ''An unknown error occurred. Is the backend server running?'']
         \<and> \<not> spinner v))
   \<and> (map_of fs ''detail'' = None \<longrightarrow>
      (\<exists>v. GenerateQuizTab (handleSubmit_resume (Rejected (ErrorResponse (JObj fs))) st) = Inr v
         \<and> error_region v =
             ErrorBox [StrNode ''An unknown error occurred. Is the backend server running?'']
         \<and> \<not> spinner v))
   \<and> (\<exists>v. GenerateQuizTab (handleSubmit_resume (Rejected NoResponse) st) = Inr v
         \<and> error_region v =
             ErrorBox [StrNode ''An unknown error occurred. Is the backend server running?'']
         \<and> \<not> spinner v)
   \<and> (\<not> truthy (error_detail err) \<longrightarrow>
      (\<exists>v. GenerateQuizTab (handleSubmit_resume (Rejected err) st) = Inr v
         \<and> error_region v =
             ErrorBox [StrNode ''An unknown error occurred. Is the backend server running?'']
         \<and> \<not> spinner v))"
  by (simp add: js_or_def fallback_message_def GenerateQuizTab_def render_error_slot_def)

theorem failed_generate_message_witness:
  "map_of [(''detail'', JStr ''scrape failed'')] ''detail'' = Some (JStr ''scrape failed'')
   \<and> (\<exists>v. GenerateQuizTab
              (handleSubmit_resume
                (Rejected (ErrorResponse (JObj [(''detail'', JStr ''scrape failed'')])))
                (state_of (handleSubmit_begin filled_form))) = Inr v
         \<and> error_region v = ErrorBox [StrNode ''scrape failed''] \<and> \<not> spinner v)
   \<and> map_of [(''detail'', JNum 404)] ''detail'' = Some (JNum 404)
   \<and> (\<exists>v. GenerateQuizTab
              (handleSubmit_resume (Rejected (ErrorResponse (JObj [(''detail'', JNum 404)])))
                filled_form) = Inr v
         \<and> error_region v = ErrorBox [NumNode 404] \<and> \<not> spinner v)
   \<and> map_of [(''detail'', JNull)] ''detail'' = Some JNull \<and> \<not> truthy JNull
   \<and> (\<exists>v. GenerateQuizTab
              (handleSubmit_resume (Rejected (ErrorResponse (JObj [(''detail'', JNull)])))
                filled_form) = Inr v
         \<and> error_region v =
             ErrorBox [StrNode ''An unknown error occurred. Is the backend server running?'']
         \<and> \<not> spinner v)
   \<and> map_of ([] :: (string \<times> js_value) list) ''detail'' = None
   \<and> (\<exists>v. GenerateQuizTab
              (handleSubmit_resume (Rejected (ErrorResponse (JObj []))) filled_form) = Inr v
         \<and> error_region v =
             ErrorBox [StrNode ''An unknown error occurred. Is the backend server running?'']
         \<and> \<not> spinner v)
   \<and> \<not> truthy (error_detail (ErrorResponse (JStr ''Internal Server Error'')))
   \<and> (\<exists>v. GenerateQuizTab
              (handleSubmit_resume (Rejected (ErrorResponse (JStr ''Internal Server Error'')))
                filled_form) = Inr v
         \<and> error_region v =
             ErrorBox [StrNode ''An unknown error occurred. Is the backend server running?'']
         \<and> \<not> spinner v)"
proof -
  have s1: "map_of [(''detail'', JStr ''scrape failed'')] ''detail'' = Some (JStr ''scrape failed'')"
    and s2: "''scrape failed'' \<noteq> []"
    and n1: "map_of [(''detail'', JNum 404)] ''detail'' = Some (JNum 404)"
    and n2: "(404 :: rat) \<noteq> 0"
    and f1: "map_of [(''detail'', JNull)] ''detail'' = Some JNull"
    and f2: "\<not> truthy JNull"
    and a1: "map_of ([] :: (string \<times> js_value) list) ''detail'' = None"
    and b1: "\<not> truthy (error_detail (ErrorResponse (JStr ''Internal Server Error'')))"
    by simp_all
  note fgm = failed_generate_message
  note c1 = fgm [of _ _ "state_of (handleSubmit_begin filled_form)",
      THEN conjunct1, THEN mp, OF conjI [OF s1 s2]]
  note c2 = fgm [of _ _ filled_form,
      THEN conjunct2, THEN conjunct1, THEN mp, OF conjI [OF n1 n2]]
  note c3 = fgm [of _ _ filled_form,
      THEN conjunct2, THEN conjunct2, THEN conjunct1, THEN mp, OF conjI [OF f1 f2]]
  note c4 = fgm [of _ _ filled_form,
      THEN conjunct2, THEN conjunct2, THEN conjunct2, THEN conjunct1, THEN mp, OF a1]
  note c6 = fgm [of _ _ filled_form,
      THEN conjunct2, THEN conjunct2, THEN conjunct2, THEN conjunct2, THEN conjunct2,
      THEN mp, OF b1]
  show ?thesis
    by (intro conjI s1 n1 f1 f2 a1 b1 c1 c2 c3 c4 c6)
qed

text \<open>
  Claim C7 does not hold of every body that has the field. A body whose
  \<^verbatim>\<open>detail\<close> is the empty string has it, and the fallback message is shown
  instead of the field's value. A body whose \<^verbatim>\<open>detail\<close> is a list of objects,
  the shape of a validation failure, has it too, and the render raises an error instead
  of showing a message.
\<close>

theorem detail_not_shown:
  "map_of [(''detail'', JStr [])] ''detail'' = Some (JStr [])
   \<and> GenerateQuizTab
        (handleSubmit_resume (Rejected (ErrorResponse (JObj [(''detail'', JStr [])])))
          GenerateQuizTab_init) =
      Inr \<lparr>input_value = [], button_disabled = False, button_label = ''Generate Quiz'',
           error_region =
             ErrorBox [StrNode ''An unknown error occurred. Is the backend server running?''],
           spinner = False, quiz_region = None\<rparr>
   \<and> map_of [(''detail'', JArr [JObj [(''msg'', JStr ''field required'')]])] ''detail'' =
       Some (JArr [JObj [(''msg'', JStr ''field required'')]])
   \<and> error
        (handleSubmit_resume
          (Rejected (ErrorResponse
            (JObj [(''detail'', JArr [JObj [(''msg'', JStr ''field required'')]])])))
          GenerateQuizTab_init) =
      JArr [JObj [(''msg'', JStr ''field required'')]]
   \<and> GenerateQuizTab
        (handleSubmit_resume
          (Rejected (ErrorResponse
            (JObj [(''detail'', JArr [JObj [(''msg'', JStr ''field required'')]])])))
          GenerateQuizTab_init) =
      Inl ObjectsNotValidAsChild"
  by (simp add: js_or_def fallback_message_def GenerateQuizTab_def render_error_slot_def
      GenerateQuizTab_init_def)

text \<open>
  Claim C8. Submitting the Generate form with a non-empty url resets the component to
  loading whatever it held before: loading is set, and the held result and the held
  error are cleared, so the spinner is shown and neither an error nor a quiz.
\<close>

theorem resubmit_resets:
  "url st \<noteq> [] \<Longrightarrow>
     state_of (handleSubmit_begin st) = st\<lparr>loading := True, error := JNull, quizData := None\<rparr>
     \<and> loading (state_of (handleSubmit_begin st))
     \<and> error (state_of (handleSubmit_begin st)) = JNull
     \<and> quizData (state_of (handleSubmit_begin st)) = None
     \<and> GenerateQuizTab (state_of (handleSubmit_begin st)) =
         Inr \<lparr>input_value = url st, button_disabled = True,
              button_label = ''Generating...'', error_region = Bare [], spinner = True,
              quiz_region = None\<rparr>"
  by (simp add: handleSubmit_begin_def GenerateQuizTab_def render_error_slot_def)

theorem resubmit_resets_witness:
  "url filled_form \<noteq> []
   \<and> error filled_form = JStr ''scrape failed''
   \<and> quizData filled_form = Some sample_quiz
   \<and> loading (state_of (handleSubmit_begin filled_form))
   \<and> error (state_of (handleSubmit_begin filled_form)) = JNull
   \<and> quizData (state_of (handleSubmit_begin filled_form)) = None
   \<and> GenerateQuizTab (state_of (handleSubmit_begin filled_form)) =
       Inr \<lparr>input_value = ''https://en.wikipedia.org/wiki/Alan_Turing'',
            button_disabled = True, button_label = ''Generating...'',
            error_region = Bare [], spinner = True, quiz_region = None\<rparr>"
  using resubmit_resets [of filled_form]
  by (simp add: filled_form_def handleSubmit_begin_def GenerateQuizTab_def
      render_error_slot_def)

text \<open>
  Claim C8 does not hold from every state. The url is part of the state: from a state
  with an empty url that holds a quiz, a submission does not set loading and does not
  discard the quiz.
\<close>

theorem empty_resubmit_keeps_result:
  "\<not> loading (state_of (handleSubmit_begin cleared_form))
   \<and> quizData (state_of (handleSubmit_begin cleared_form)) = Some sample_quiz
   \<and> error (state_of (handleSubmit_begin cleared_form)) =
       JStr ''Please enter a Wikipedia URL.''"
  by (simp add: handleSubmit_begin_def cleared_form_def validation_message_def)

text \<open>
  Claim C9. A submission with an empty url changes the error slot only: the held quiz
  and the loading flag stay as they were, and the rendering differs from the one before
  in the error region alone, so a quiz shown before is still shown, next to the
  validation message.
\<close>

theorem empty_submit_frame:
  "url st = [] \<Longrightarrow>
     state_of (handleSubmit_begin st) = st\<lparr>error := JStr ''Please enter a Wikipedia URL.''\<rparr>
     \<and> quizData (state_of (handleSubmit_begin st)) = quizData st
     \<and> loading (state_of (handleSubmit_begin st)) = loading st
     \<and> GenerateQuizTab (state_of (handleSubmit_begin st)) =
         Inr \<lparr>input_value = [], button_disabled = loading st,
              button_label = (if loading st then ''Generating...'' else ''Generate Quiz''),
              error_region = ErrorBox [StrNode ''Please enter a Wikipedia URL.''],
              spinner = loading st,
              quiz_region =
                (case quizData st of None \<Rightarrow> None | Some qd \<Rightarrow> QuizDisplay (Some qd))\<rparr>
     \<and> (\<forall>v. GenerateQuizTab st = Inr v \<longrightarrow>
           GenerateQuizTab (state_of (handleSubmit_begin st)) =
             Inr (v\<lparr>error_region := ErrorBox [StrNode ''Please enter a Wikipedia URL.'']\<rparr>))"
  by (auto simp: handleSubmit_begin_def GenerateQuizTab_def validation_message_def
      render_error_slot_def split: sum.splits)

theorem empty_submit_frame_witness:
  "url cleared_form = []
   \<and> GenerateQuizTab cleared_form =
       Inr \<lparr>input_value = [], button_disabled = False, button_label = ''Generate Quiz'',
            error_region = Bare [], spinner = False,
            quiz_region = QuizDisplay (Some sample_quiz)\<rparr>
   \<and> GenerateQuizTab (state_of (handleSubmit_begin cleared_form)) =
       Inr \<lparr>input_value = [], button_disabled = False, button_label = ''Generate Quiz'',
            error_region = ErrorBox [StrNode ''Please enter a Wikipedia URL.''],
            spinner = False, quiz_region = QuizDisplay (Some sample_quiz)\<rparr>"
proof -
  have u: "url cleared_form = []"
    by (simp add: cleared_form_def)
  have before: "GenerateQuizTab cleared_form =
       Inr \<lparr>input_value = [], button_disabled = False, button_label = ''Generate Quiz'',
            error_region = Bare [], spinner = False,
            quiz_region = QuizDisplay (Some sample_quiz)\<rparr>"
    by (simp add: cleared_form_def GenerateQuizTab_def render_error_slot_def)
  from empty_submit_frame [OF u] before u show ?thesis
    by (simp add: cleared_form_def handleSubmit_begin_def validation_message_def
        GenerateQuizTab_def render_error_slot_def)
qed

section \<open>Quiz Display\<close>

text \<open>
  Claim C2. Quiz Display renders one block per question, each with the question's
  options in order. In a block whose question has pairwise distinct options one of
  which equals the answer, exactly one option line is marked and it is the answer; in a
  block whose question has no option equal to the answer, no line is marked.
\<close>

theorem QuizDisplay_marks_answer:
  "\<exists>v. QuizDisplay (Some qd) = Some v
     \<and> length (question_blocks v) = length (quiz qd)
     \<and> (\<forall>i < length (quiz qd).
          map fst (option_lines (question_blocks v ! i)) = options (quiz qd ! i)
          \<and> (distinct (options (quiz qd ! i))
               \<and> answer (quiz qd ! i) \<in> set (options (quiz qd ! i))
               \<longrightarrow> marked (question_blocks v ! i) = [answer (quiz qd ! i)])
          \<and> (answer (quiz qd ! i) \<notin> set (options (quiz qd ! i))
               \<longrightarrow> marked (question_blocks v ! i) = []))"
proof -
  obtain v where v: "QuizDisplay (Some qd) = Some v"
    by (simp add: QuizDisplay_def)
  have len: "length (question_blocks v) = length (quiz qd)"
    using v by (auto simp: QuizDisplay_def)
  have "map fst (option_lines (question_blocks v ! i)) = options (quiz qd ! i)
        \<and> (distinct (options (quiz qd ! i))
             \<and> answer (quiz qd ! i) \<in> set (options (quiz qd ! i))
             \<longrightarrow> marked (question_blocks v ! i) = [answer (quiz qd ! i)])
        \<and> (answer (quiz qd ! i) \<notin> set (options (quiz qd ! i))
             \<longrightarrow> marked (question_blocks v ! i) = [])"
    if "i < length (quiz qd)" for i
  proof -
    have b: "question_blocks v ! i = render_question (i, quiz qd ! i)"
      using v that by (rule QuizDisplay_block)
    have "map fst (option_lines (render_question (i, quiz qd ! i))) = options (quiz qd ! i)"
      by (simp add: render_question_def render_option_def o_def)
    then show ?thesis
      unfolding b marked_render_question
      by (simp add: filter_eq_distinct filter_eq_absent)
  qed
  with v len show ?thesis by blast
qed

theorem QuizDisplay_marks_answer_witness:
  "\<exists>v. QuizDisplay (Some sample_quiz) = Some v
     \<and> length (question_blocks v) = 2
     \<and> marked (question_blocks v ! 0) = [''Alan Turing'']
     \<and> marked (question_blocks v ! 1) = []"
  using QuizDisplay_marks_answer [of sample_quiz]
  by (auto simp: sample_quiz_def sample_question_def unmatched_question_def)

section \<open>History Tab\<close>

text \<open>
  Claim C4. A click on the Details button of the row rendered for an entry puts the
  component in the state with the modal open, the modal loading and no detail record
  held, and issues exactly one request, a GET to \<^verbatim>\<open>/quiz/\<close> followed by the
  entry's id. This holds in every state, so also when the same row is clicked again after
  the earlier request settled and the modal was closed: the request is issued again.
  Where the table is displayed, the modal is rendered with its loading line and no quiz.
\<close>

theorem details_click_opens_and_fetches:
  "click_details (render_row item) st =
     Awaiting (st\<lparr>modalLoading := True, isModalOpen := True, selectedQuiz := None\<rparr>)
       \<lparr>verb = GET, path = ''/quiz/'' @ entry_id item, body = None\<rparr>
   \<and> isModalOpen (state_of (click_details (render_row item) st))
   \<and> modalLoading (state_of (click_details (render_row item) st))
   \<and> selectedQuiz (state_of (click_details (render_row item) st)) = None
   \<and> requests_of (click_details (render_row item) st) =
       [\<lparr>verb = GET, path = ''/quiz/'' @ entry_id item, body = None\<rparr>]
   \<and> requests_of (click_details (render_row item)
         (closeModal (handleDetailsClick_resume out
            (state_of (click_details (render_row item) st))))) =
       [\<lparr>verb = GET, path = ''/quiz/'' @ entry_id item, body = None\<rparr>]
   \<and> (\<not> loadingH st \<and> \<not> truthy (errorH st) \<longrightarrow>
        shown_modal (HistoryTab (state_of (click_details (render_row item) st))) =
          Some \<lparr>loading_line = True, quiz_content = None\<rparr>)"
  by (simp add: render_row_def handleDetailsClick_begin_def getQuizById_def apiClient_get_def
      view_defs)

theorem details_click_opens_and_fetches_witness:
  "\<not> loadingH (tab run_loaded) \<and> \<not> truthy (errorH (tab run_loaded))
   \<and> requests_of (click_details (render_row sample_entry) (tab run_loaded)) =
       [\<lparr>verb = GET, path = ''/quiz/7'', body = None\<rparr>]
   \<and> shown_modal
        (HistoryTab (state_of (click_details (render_row sample_entry) (tab run_loaded)))) =
       Some \<lparr>loading_line = True, quiz_content = None\<rparr>
   \<and> requests_of (click_details (render_row sample_entry)
         (closeModal (handleDetailsClick_resume (Resolved sample_quiz)
            (state_of (click_details (render_row sample_entry) (tab run_loaded)))))) =
       [\<lparr>verb = GET, path = ''/quiz/7'', body = None\<rparr>]"
  using details_click_opens_and_fetches [of sample_entry "tab run_loaded" "Resolved sample_quiz"]
  by (simp add: tab_loaded entry_id_sample view_defs closeModal_def)

text \<open>
  Claim C5. A detail fetch that fails closes the modal and puts the message ``Failed to
  fetch quiz details.'' in the list's error slot, in every state. A detail fetch that
  succeeds while the modal is still open and the table is displayed (the list neither
  loading nor in error) is rendered in the open modal, without the loading line; this is
  the case in particular when the response is the next thing to happen after the click.
\<close>

theorem details_fetch_outcome:
  "\<not> isModalOpen (handleDetailsClick_resume (Rejected err) st)
   \<and> errorH (handleDetailsClick_resume (Rejected err) st) =
       JStr ''Failed to fetch quiz details.''
   \<and> (isModalOpen st \<and> \<not> loadingH st \<and> \<not> truthy (errorH st) \<longrightarrow>
        shown_modal (HistoryTab (handleDetailsClick_resume (Resolved q) st)) =
          Some \<lparr>loading_line = False, quiz_content = QuizDisplay (Some q)\<rparr>)
   \<and> (\<not> loadingH st \<and> \<not> truthy (errorH st) \<longrightarrow>
        shown_modal (HistoryTab (fst (handleDetailsClick (\<lambda>r. Resolved q) quizId st))) =
          Some \<lparr>loading_line = False, quiz_content = QuizDisplay (Some q)\<rparr>)"
  by (simp add: details_failure_def view_defs handleDetailsClick_def run_async_def
      handleDetailsClick_begin_def)

theorem details_fetch_outcome_witness:
  "isModalOpen (tab run_clicked) \<and> \<not> loadingH (tab run_clicked)
   \<and> \<not> truthy (errorH (tab run_clicked))
   \<and> shown_modal
        (HistoryTab (handleDetailsClick_resume (Resolved sample_quiz) (tab run_clicked))) =
       Some \<lparr>loading_line = False, quiz_content = QuizDisplay (Some sample_quiz)\<rparr>
   \<and> \<not> loadingH (tab run_loaded) \<and> \<not> truthy (errorH (tab run_loaded))
   \<and> shown_modal
        (HistoryTab (fst (handleDetailsClick (\<lambda>r. Resolved sample_quiz) ''7'' (tab run_loaded)))) =
       Some \<lparr>loading_line = False, quiz_content = QuizDisplay (Some sample_quiz)\<rparr>
   \<and> \<not> isModalOpen (handleDetailsClick_resume (Rejected NoResponse) (tab run_clicked))
   \<and> errorH (handleDetailsClick_resume (Rejected NoResponse) (tab run_clicked)) =
       JStr ''Failed to fetch quiz details.''"
  using details_fetch_outcome [of NoResponse "tab run_clicked" sample_quiz "''7''"]
    details_fetch_outcome [of NoResponse "tab run_loaded" sample_quiz "''7''"]
  by (simp add: tab_clicked tab_loaded)

text \<open>
  Claim C5 does not hold of every detail fetch that succeeds. In the run where the list
  is loaded, a row is clicked, the modal is closed and the response arrives afterwards,
  the fetched record is stored but no modal is rendered.
\<close>

theorem late_success_not_rendered:
  "run [HistorySettles getHistory (Resolved [sample_entry, other_entry]),
        Click (render_row sample_entry), Close,
        DetailsSettles (getQuizById ''7'') (Resolved sample_quiz)] sys_mount =
     Some run_late_success
   \<and> selectedQuiz (tab run_late_success) = Some sample_quiz
   \<and> HistoryTab (tab run_late_success) =
       TableView [render_row sample_entry, render_row other_entry] None"
proof -
  have "run [HistorySettles getHistory (Resolved [sample_entry, other_entry]),
        Click (render_row sample_entry), Close,
        DetailsSettles (getQuizById ''7'') (Resolved sample_quiz)] sys_mount =
     Some run_late_success"
    using late_success_run
    by (simp add: events_late_success_def events_clicked_def events_loaded_def)
  moreover have "selectedQuiz (tab run_late_success) = Some sample_quiz"
    by (simp add: run_late_success_def sys_details_settles_def)
  moreover have "HistoryTab (tab run_late_success) =
       TableView [render_row sample_entry, render_row other_entry] None"
    by (simp add: run_late_success_def run_closed_early_def sys_details_settles_def
        sys_close_def closeModal_def tab_clicked view_defs)
  ultimately show ?thesis by simp
qed

text \<open>
  Claim C6. When the history request of the mount (a GET to \<^verbatim>\<open>/history\<close>) resolves
  with a sequence of entries, the History Tab renders the table with one row per entry,
  in the order of the sequence, and with the single placeholder row when the sequence is
  empty; no modal is rendered. The rows depend on the received sequence in the same way
  in any state whose error slot is not truthy.
\<close>

theorem history_rows_follow_backend:
  "HistoryTab (fst (fetchHistory (\<lambda>r. Resolved es) HistoryTab_init)) =
     TableView (if es = [] then [PlaceholderRow ''No quizzes generated yet.'']
                else map render_row es) None
   \<and> snd (fetchHistory (\<lambda>r. Resolved es) HistoryTab_init) =
       [\<lparr>verb = GET, path = ''/history'', body = None\<rparr>]
   \<and> HistoryTab (tab (sys_history_settles getHistory (Resolved es) sys_mount)) =
     TableView (if es = [] then [PlaceholderRow ''No quizzes generated yet.'']
                else map render_row es) None
   \<and> (\<not> truthy (errorH st) \<longrightarrow>
        shown_rows (HistoryTab (fetchHistory_resume (Resolved es) st)) =
          (if es = [] then [PlaceholderRow ''No quizzes generated yet.'']
           else map render_row es))"
  by (simp add: sys_defs view_defs fetchHistory_def run_async_def getHistory_def
      apiClient_get_def)

theorem history_rows_follow_backend_witness:
  "HistoryTab (tab run_loaded) =
     TableView
       [EntryRow ''7'' ''Alan Turing'' ''https://en.wikipedia.org/wiki/Alan_Turing''
          (ToLocaleString ''2025-01-01T00:00:00'') ''7'',
        EntryRow ''3'' ''Ada Lovelace'' ''https://en.wikipedia.org/wiki/Ada_Lovelace''
          (ToLocaleString ''2024-12-31T00:00:00'') ''3''] None
   \<and> HistoryTab (tab (sys_history_settles getHistory (Resolved []) sys_mount)) =
     TableView [PlaceholderRow ''No quizzes generated yet.''] None
   \<and> \<not> truthy (errorH (tab run_clicked))
   \<and> shown_rows (HistoryTab (fetchHistory_resume (Resolved [other_entry]) (tab run_clicked))) =
       [EntryRow ''3'' ''Ada Lovelace'' ''https://en.wikipedia.org/wiki/Ada_Lovelace''
          (ToLocaleString ''2024-12-31T00:00:00'') ''3'']"
  using history_rows_follow_backend [of "[sample_entry, other_entry]" "tab run_clicked"]
    history_rows_follow_backend [of "[]" "tab run_clicked"]
    history_rows_follow_backend [of "[other_entry]" "tab run_clicked"]
  by (simp add: run_loaded_def tab_clicked render_row_def sample_entry_def other_entry_def)

text \<open>
  Claim C10. In every state a mounted History Tab can be in whose error slot is not null,
  the rendering is the error message alone: no table row and no modal. So when a detail
  request in flight fails, the rendering that follows is the message ``Failed to fetch
  quiz details.'' and the history list is gone from view with the modal.
\<close>

theorem error_hides_history:
  "run evs sys_mount = Some s \<Longrightarrow>
     (errorH (tab s) \<noteq> JNull \<longrightarrow>
        HistoryTab (tab s) = ErrorView (errorH (tab s))
        \<and> shown_rows (HistoryTab (tab s)) = []
        \<and> shown_modal (HistoryTab (tab s)) = None)
     \<and> (\<forall>r \<in> set (details_inflight s). \<forall>err.
          HistoryTab (tab (sys_details_settles r (Rejected err) s)) =
            ErrorView (JStr ''Failed to fetch quiz details.''))"
proof -
  assume r: "run evs sys_mount = Some s"
  from hist_inv_mount r have "hist_inv s" by (rule hist_inv_run)
  then have inv:
    "(loadingH (tab s) \<longrightarrow> errorH (tab s) = JNull \<and> details_inflight s = [])
     \<and> (errorH (tab s) = JNull \<or> errorH (tab s) = JStr history_failure
          \<or> errorH (tab s) = JStr details_failure)"
    by (simp add: hist_inv_def)
  have a: "HistoryTab (tab s) = ErrorView (errorH (tab s))" if "errorH (tab s) \<noteq> JNull"
    using inv that truthy_failures by (auto simp: HistoryTab_def)
  have b: "HistoryTab (tab (sys_details_settles q (Rejected err) s)) =
             ErrorView (JStr ''Failed to fetch quiz details.'')"
    if "q \<in> set (details_inflight s)" for q err
  proof -
    from that have "details_inflight s \<noteq> []" by auto
    with inv have "\<not> loadingH (tab s)" by blast
    then show ?thesis
      by (simp add: sys_details_settles_def HistoryTab_def details_failure_def)
  qed
  from a b show ?thesis by simp
qed

theorem error_hides_history_witness:
  "run events_failed sys_mount = Some run_failed \<and> errorH (tab run_failed) \<noteq> JNull
   \<and> HistoryTab (tab run_failed) = ErrorView (JStr ''Failed to fetch quiz details.'')
   \<and> shown_rows (HistoryTab (tab run_failed)) = []
   \<and> shown_modal (HistoryTab (tab run_failed)) = None
   \<and> run events_clicked sys_mount = Some run_clicked
   \<and> getQuizById ''7'' \<in> set (details_inflight run_clicked)
   \<and> shown_rows (HistoryTab (tab run_clicked)) =
       [render_row sample_entry, render_row other_entry]
   \<and> HistoryTab (tab (sys_details_settles (getQuizById ''7'') (Rejected NoResponse) run_clicked))
       = ErrorView (JStr ''Failed to fetch quiz details.'')"
proof -
  have e: "errorH (tab run_failed) = JStr ''Failed to fetch quiz details.''"
    by (simp add: run_failed_def sys_details_settles_def details_failure_def)
  have i: "getQuizById ''7'' \<in> set (details_inflight run_clicked)"
    by (simp add: inflight_clicked)
  have t: "shown_rows (HistoryTab (tab run_clicked)) =
             [render_row sample_entry, render_row other_entry]"
    by (simp add: tab_clicked view_defs)
  from error_hides_history [OF failed_run] error_hides_history [OF clicked_run]
    failed_run clicked_run e i t
  show ?thesis by simp
qed

end
